theory Spec2Isabelle
  imports Main
begin

section \<open>JavaScript strings\<close>

text \<open>
  A string is a list of 8-bit characters, read as the code units U+0000 to U+00FF. On such
  strings the functions below compute what the JavaScript string methods and regular
  expressions of the source compute. \<open>trim\<close> and the class \<open>\s\<close> remove the white space
  and line terminators of ECMAScript, which in this range are TAB, LF, VT, FF, CR, SPACE
  and NBSP; \<open>toLowerCase\<close> maps A-Z and the Latin-1 capitals U+00C0-U+00DE (without the
  multiplication sign U+00D7) to their small letters.
\<close>

definition is_ws :: "char \<Rightarrow> bool" where
  "is_ws c = (c \<in> set [CHR 0x09, CHR 0x0A, CHR 0x0B, CHR 0x0C, CHR 0x0D, CHR '' '', CHR 0xA0])"

definition is_digit :: "char \<Rightarrow> bool" where
  "is_digit c = (c \<in> set ''0123456789'')"

definition is_upper :: "char \<Rightarrow> bool" where
  "is_upper c = (c \<in> set ''ABCDEFGHIJKLMNOPQRSTUVWXYZ'')"

text \<open>The characters the regular-expression dot does not match.\<close>

definition is_line_terminator :: "char \<Rightarrow> bool" where
  "is_line_terminator c = (c = CHR 0x0A \<or> c = CHR 0x0D)"

definition toLowerChar :: "char \<Rightarrow> char" where
  "toLowerChar c =
     (let n = (of_char c :: nat)
      in if (65 \<le> n \<and> n \<le> 90) \<or> (192 \<le> n \<and> n \<le> 222 \<and> n \<noteq> 215)
         then char_of (n + 32) else c)"

definition toLowerCase :: "string \<Rightarrow> string" where
  "toLowerCase s = map toLowerChar s"

definition trim :: "string \<Rightarrow> string" where
  "trim s = rev (dropWhile is_ws (rev (dropWhile is_ws s)))"

fun startsWith :: "string \<Rightarrow> string \<Rightarrow> bool" where
  "startsWith s [] = True"
| "startsWith [] (p # ps) = False"
| "startsWith (c # cs) (p # ps) = (c = p \<and> startsWith cs ps)"

fun str_includes :: "string \<Rightarrow> string \<Rightarrow> bool" where
  "str_includes [] sub = (sub = [])"
| "str_includes (c # cs) sub = (startsWith (c # cs) sub \<or> str_includes cs sub)"

text \<open>
  \<open>s.split(d)\<close> for a one-character separator: the pieces between the separators, at least
  one piece (the whole string when there is no separator).
\<close>

fun split :: "char \<Rightarrow> string \<Rightarrow> string list" where
  "split d [] = [[]]"
| "split d (c # cs) =
     (if c = d then [] # split d cs
      else (case split d cs of [] \<Rightarrow> [[c]] | l # ls \<Rightarrow> (c # l) # ls))"

text \<open>\<open>xs.join('\n')\<close>.\<close>

fun join :: "string list \<Rightarrow> string" where
  "join [] = []"
| "join [l] = l"
| "join (l # l' # ls) = l @ CHR 0x0A # join (l' # ls)"

definition lines_of :: "string \<Rightarrow> string list" where
  "lines_of content = split (CHR 0x0A) content"

text \<open>\<open>xs.slice(a, b)\<close> for \<open>0 \<le> a\<close>, \<open>0 \<le> b\<close>.\<close>

definition slice :: "nat \<Rightarrow> nat \<Rightarrow> 'a list \<Rightarrow> 'a list" where
  "slice a b xs = take (b - a) (drop a xs)"

text \<open>
  \<open>parseInt(ds, 10)\<close> on a non-empty run of decimal digits, and the decimal numeral of a
  number as template strings print it. The value is a natural number here; JavaScript holds
  the nearest IEEE double, which is the same number below \<open>2^53\<close>.
\<close>

definition digit_val :: "char \<Rightarrow> nat" where
  "digit_val c = of_char c - 48"

definition parseInt10 :: "string \<Rightarrow> nat" where
  "parseInt10 ds = foldl (\<lambda>a c. 10 * a + digit_val c) 0 ds"



section \<open>The table parser\<close>

record CongressMember =
  name :: string
  chamber :: string
  party :: "string option"
  state :: string
  district :: "string option"
  rank :: nat
  reason :: string

record ParsedTable =
  members :: "CongressMember list"
  totalMembers :: nat
  investigationComplete :: bool
  billId :: "string option"
  hasDualTables :: bool
  alignedMembers :: "CongressMember list option"
  opposedMembers :: "CongressMember list option"

subsection \<open>Cells of a row\<close>

text \<open>
  \<open>rankCell.match(/(\d+)/)\<close>: the leftmost, longest run of digits, if there is a digit.
\<close>

definition first_digit_run :: "string \<Rightarrow> string option" where
  "first_digit_run s =
     (let r = dropWhile (\<lambda>c. \<not> is_digit c) s
      in if r = [] then None else Some (takeWhile is_digit r))"

definition parseRank :: "string \<Rightarrow> nat option" where
  "parseRank rankCell =
     (case first_digit_run rankCell of
        None \<Rightarrow> None
      | Some ds \<Rightarrow> Some (parseInt10 ds))"

text \<open>
  The lazy group \<open>^(.+?)\<close> followed by a rest \<open>P\<close>: the shortest non-empty prefix without
  line terminator after which \<open>P\<close> matches.
\<close>

fun lazy_prefix :: "(string \<Rightarrow> bool) \<Rightarrow> string \<Rightarrow> string \<Rightarrow> string option" where
  "lazy_prefix P acc [] = (if acc \<noteq> [] \<and> P [] then Some acc else None)"
| "lazy_prefix P acc (c # cs) =
     (if acc \<noteq> [] \<and> P (c # cs) then Some acc
      else if is_line_terminator c then None
      else lazy_prefix P (acc @ [c]) cs)"

definition is_party_code :: "char \<Rightarrow> bool" where
  "is_party_code c = (c \<in> set ''RDI'')"

text \<open>The rests \<open>\s*\(([RDI])\)$\<close> and \<open>\s*\(([RDI])-\<close> of the two name patterns.\<close>

definition simple_party_rest :: "string \<Rightarrow> bool" where
  "simple_party_rest r =
     (case dropWhile is_ws r of
        [a, p, b] \<Rightarrow> a = CHR ''('' \<and> is_party_code p \<and> b = CHR '')''
      | _ \<Rightarrow> False)"

definition party_state_rest :: "string \<Rightarrow> bool" where
  "party_state_rest r =
     (case dropWhile is_ws r of
        a # p # b # _ \<Rightarrow> a = CHR ''('' \<and> is_party_code p \<and> b = CHR ''-''
      | _ \<Rightarrow> False)"

text \<open>The party letter captured after the name group: the character after the bracket.\<close>

definition party_after :: "string \<Rightarrow> string \<Rightarrow> string" where
  "party_after nm cell = take 1 (drop 1 (dropWhile is_ws (drop (length nm) cell)))"

definition parseNameForParty :: "string \<Rightarrow> string \<times> string option" where
  "parseNameForParty nameCell =
     (case lazy_prefix simple_party_rest [] nameCell of
        Some nm \<Rightarrow> (trim nm, Some (party_after nm nameCell))
      | None \<Rightarrow>
          (case lazy_prefix party_state_rest [] nameCell of
             Some nm \<Rightarrow> (trim nm, Some (party_after nm nameCell))
           | None \<Rightarrow> (trim nameCell, None)))"

definition parseStateDistrict :: "string \<Rightarrow> string \<times> string option" where
  "parseStateDistrict stateDistrictCell =
     (case stateDistrictCell of
        [a, b] \<Rightarrow>
          if is_upper a \<and> is_upper b then ([a, b], None) else (stateDistrictCell, None)
      | a # b # d # ds \<Rightarrow>
          if is_upper a \<and> is_upper b \<and> d = CHR ''-'' \<and> ds \<noteq> [] \<and> list_all is_digit ds
          then ([a, b], Some ds) else (stateDistrictCell, None)
      | _ \<Rightarrow> (stateDistrictCell, None))"

definition expandParty :: "string \<Rightarrow> string" where
  "expandParty partyCode =
     (if partyCode = ''R'' then ''Republican''
      else if partyCode = ''D'' then ''Democrat''
      else if partyCode = ''I'' then ''Independent''
      else partyCode)"

definition cells_of :: "string \<Rightarrow> string list" where
  "cells_of row = filter (\<lambda>cell. cell \<noteq> []) (map trim (split (CHR ''|'') row))"

definition parseTableRow :: "string \<Rightarrow> CongressMember option" where
  "parseTableRow row =
     (case cells_of row of
        nameCell # chamberCell # stateDistrictCell # rankCell # reasonCell # _ \<Rightarrow>
          (case parseRank rankCell of
             None \<Rightarrow> None
           | Some r \<Rightarrow>
               (let nameInfo = parseNameForParty nameCell;
                    stateInfo = parseStateDistrict (trim stateDistrictCell)
                in Some \<lparr> name = fst nameInfo,
                          chamber = trim chamberCell,
                          party = (case snd nameInfo of
                                     None \<Rightarrow> None
                                   | Some p \<Rightarrow> if p = [] then None else Some (expandParty p)),
                          state = fst stateInfo,
                          district = snd stateInfo,
                          rank = r,
                          reason = trim reasonCell \<rparr>))
      | _ \<Rightarrow> None)"

subsection \<open>Rows of a table section\<close>

text \<open>The separator test \<open>/^\|[\s\-|]+\|$/\<close> of the single-table path and of the row loop.\<close>

definition is_separator_row :: "string \<Rightarrow> bool" where
  "is_separator_row line =
     (case line of
        [] \<Rightarrow> False
      | a # r \<Rightarrow>
          a = CHR ''|'' \<and> r \<noteq> [] \<and> last r = CHR ''|'' \<and> butlast r \<noteq> [] \<and>
          list_all (\<lambda>c. is_ws c \<or> c = CHR ''-'' \<or> c = CHR ''|'') (butlast r))"

definition skipped_row :: "string \<Rightarrow> bool" where
  "skipped_row trimmedLine =
     (trimmedLine = [] \<or> str_includes trimmedLine ''Congress Member'' \<or>
      is_separator_row trimmedLine)"

fun parseRowLines :: "string list \<Rightarrow> CongressMember list" where
  "parseRowLines [] = []"
| "parseRowLines (line # rest) =
     (let trimmedLine = trim line
      in if skipped_row trimmedLine then parseRowLines rest
         else (case parseTableRow trimmedLine of
                 None \<Rightarrow> parseRowLines rest
               | Some member \<Rightarrow> member # parseRowLines rest))"

definition parseTableRows :: "string \<Rightarrow> CongressMember list" where
  "parseTableRows tableSection = parseRowLines (lines_of tableSection)"

subsection \<open>Dual tables\<close>

definition is_table_header :: "string \<Rightarrow> bool" where
  "is_table_header line =
     (let lineLower = trim (toLowerCase line)
      in str_includes line ''|'' \<and>
         str_includes lineLower ''congress member'' \<and>
         (str_includes lineLower ''chamber'' \<or> str_includes lineLower ''party'') \<and>
         str_includes lineLower ''involvement rank'')"

definition tableHeaderCount :: "string \<Rightarrow> nat" where
  "tableHeaderCount content = length (filter is_table_header (lines_of content))"

definition detectDualTables :: "string \<Rightarrow> bool" where
  "detectDualTables content = (tableHeaderCount content = 2)"

text \<open>
  The separator test of the dual-table path:
  \<open>line.trim().replace(/\|/g, '').replace(/[-:]/g, '').trim() === ''\<close>.
\<close>

definition is_separator_line :: "string \<Rightarrow> bool" where
  "is_separator_line line =
     (trim (filter (\<lambda>c. c \<noteq> CHR ''-'' \<and> c \<noteq> CHR '':'')
              (filter (\<lambda>c. c \<noteq> CHR ''|'') (trim line))) = [])"

text \<open>
  The loop of \<open>extractTableByOrder\<close> over the lines, with its three variables
  \<open>tablesFound\<close>, \<open>currentTableLines\<close> and \<open>inTable\<close>; the result is \<open>tablesFound\<close> after
  the loop and the final flush.
\<close>

fun collectTables :: "string list \<Rightarrow> string list \<Rightarrow> bool \<Rightarrow> string list \<Rightarrow> string list" where
  "collectTables tablesFound currentTableLines inTable [] =
     (if inTable \<and> currentTableLines \<noteq> [] then tablesFound @ [join currentTableLines]
      else tablesFound)"
| "collectTables tablesFound currentTableLines inTable (line # rest) =
     (if is_table_header line then
        (if inTable \<and> currentTableLines \<noteq> []
         then collectTables (tablesFound @ [join currentTableLines]) [line] True rest
         else collectTables tablesFound (currentTableLines @ [line]) True rest)
      else if inTable then
        (if str_includes line ''|'' \<and> is_separator_line line
         then collectTables tablesFound (currentTableLines @ [line]) inTable rest
         else if str_includes line ''|'' \<and> 5 \<le> length (split (CHR ''|'') line)
         then collectTables tablesFound (currentTableLines @ [line]) inTable rest
         else if trim line = [] \<and> 2 < length currentTableLines
         then collectTables (tablesFound @ [join currentTableLines]) [] False rest
         else if \<not> str_includes line ''|'' \<and> 2 < length currentTableLines
         then collectTables (tablesFound @ [join currentTableLines]) [] False rest
         else collectTables tablesFound currentTableLines inTable rest)
      else collectTables tablesFound currentTableLines inTable rest)"

definition tablesFound :: "string \<Rightarrow> string list" where
  "tablesFound content = collectTables [] [] False (lines_of content)"

text \<open>
  \<open>extractTableByOrder\<close> is called with the table numbers 1 and 2 only; the model returns
  \<open>None\<close> (null) for a number outside \<open>1..tablesFound.length\<close>.
\<close>

definition extractTableByOrder :: "string \<Rightarrow> nat \<Rightarrow> string option" where
  "extractTableByOrder content tableNumber =
     (let found = tablesFound content
      in if 1 \<le> tableNumber \<and> tableNumber \<le> length found
         then Some (found ! (tableNumber - 1)) else None)"

subsection \<open>Metadata\<close>

text \<open>
  \<open>content.match(/([SH]\.?\s*\d+[-\s]\d+)/i)\<close>: the match at the leftmost position that has
  one. Every quantifier of the pattern is followed by a character it cannot match, so the
  greedy choice is the only one.
\<close>

definition bill_match_at :: "string \<Rightarrow> string option" where
  "bill_match_at s =
     (case s of
        [] \<Rightarrow> None
      | c # r \<Rightarrow>
          if c \<in> set ''SHsh'' then
            (let dot = (if startsWith r ''.'' then ''.'' else []);
                 r1 = drop (length dot) r;
                 ws = takeWhile is_ws r1;
                 r2 = dropWhile is_ws r1;
                 d1 = takeWhile is_digit r2;
                 r3 = dropWhile is_digit r2
             in if d1 = [] then None
                else (case r3 of
                        [] \<Rightarrow> None
                      | x # r4 \<Rightarrow>
                          if x = CHR ''-'' \<or> is_ws x then
                            (let d2 = takeWhile is_digit r4
                             in if d2 = [] then None
                                else Some (c # dot @ ws @ d1 @ [x] @ d2))
                          else None))
          else None)"

fun extractBillId :: "string \<Rightarrow> string option" where
  "extractBillId [] = None"
| "extractBillId (c # cs) =
     (case bill_match_at (c # cs) of
        Some m \<Rightarrow> Some m
      | None \<Rightarrow> extractBillId cs)"

definition completionIndicators :: "string list" where
  "completionIndicators =
     [''TERMINATE'', ''investigation complete'', ''table delivered'',
      ''all findings consolidated'', ''no further puzzle pieces'']"

definition isInvestigationComplete :: "string \<Rightarrow> bool" where
  "isInvestigationComplete content =
     (let contentLower = toLowerCase content
      in list_ex (\<lambda>indicator. str_includes contentLower (toLowerCase indicator))
           completionIndicators)"

subsection \<open>Single table\<close>

definition tableIndicators :: "string list" where
  "tableIndicators =
     [''Congress Member'', ''Chamber'', ''State/District'', ''Involvement Rank'', ''Reason'',
      ''|---|'', ''TERMINATE'', ''investigation complete'', ''table delivered'']"

definition detectTableInMessage :: "string \<Rightarrow> bool" where
  "detectTableInMessage content =
     (let contentLower = toLowerCase content;
          indicatorMatches =
            filter (\<lambda>indicator. str_includes contentLower (toLowerCase indicator))
              tableIndicators
      in 3 \<le> length indicatorMatches)"

definition table_end_line :: "string \<Rightarrow> bool" where
  "table_end_line line =
     (line = [] \<or>
      (str_includes line ''---'' \<and> \<not> str_includes line ''|'') \<or>
      str_includes (toLowerCase line) ''interpretive notes'' \<or>
      str_includes (toLowerCase line) ''conclusion'')"

text \<open>
  The loop of \<open>extractTableSection\<close>: \<open>tableStart\<close> is \<open>None\<close> for \<open>-1\<close>, \<open>i\<close> is the index
  of the line at the head of the list; the result is \<open>(tableStart, tableEnd)\<close> as the loop
  leaves them, \<open>tableEnd = None\<close> when the loop ends without \<open>break\<close>.
\<close>

fun sectionBounds :: "nat option \<Rightarrow> nat \<Rightarrow> string list \<Rightarrow> nat option \<times> nat option" where
  "sectionBounds tableStart i [] = (tableStart, None)"
| "sectionBounds tableStart i (l # rest) =
     (let line = trim l;
          tableStart' =
            (if str_includes line ''Congress Member'' \<and> str_includes line ''|''
             then Some i else tableStart)
      in case tableStart' of
           None \<Rightarrow> sectionBounds tableStart' (i + 1) rest
         | Some start \<Rightarrow>
             if is_separator_row line then sectionBounds tableStart' (i + 1) rest
             else if start + 1 < i \<and> table_end_line line then (tableStart', Some i)
             else sectionBounds tableStart' (i + 1) rest)"

definition extractTableSection :: "string \<Rightarrow> string option" where
  "extractTableSection content =
     (let lines = lines_of content
      in case sectionBounds None 0 lines of
           (None, _) \<Rightarrow> None
         | (Some tableStart, None) \<Rightarrow> Some (join (slice tableStart (length lines) lines))
         | (Some tableStart, Some tableEnd) \<Rightarrow> Some (join (slice tableStart tableEnd lines)))"

subsection \<open>The parser\<close>

definition parseDualTables :: "string \<Rightarrow> ParsedTable option" where
  "parseDualTables messageContent =
     (let aligned =
            (case extractTableByOrder messageContent 1 of
               None \<Rightarrow> []
             | Some alignedSection \<Rightarrow>
                 if alignedSection = [] then [] else parseTableRows alignedSection);
          opposed =
            (case extractTableByOrder messageContent 2 of
               None \<Rightarrow> []
             | Some opposedSection \<Rightarrow>
                 if opposedSection = [] then [] else parseTableRows opposedSection);
          allMembers = aligned @ opposed
      in if allMembers = [] then None
         else Some \<lparr> members = allMembers,
                     totalMembers = length allMembers,
                     investigationComplete = isInvestigationComplete messageContent,
                     billId = extractBillId messageContent,
                     hasDualTables = True,
                     alignedMembers = Some aligned,
                     opposedMembers = Some opposed \<rparr>)"

definition parseSingleTable :: "string \<Rightarrow> ParsedTable option" where
  "parseSingleTable messageContent =
     (if \<not> detectTableInMessage messageContent then None
      else (case extractTableSection messageContent of
              None \<Rightarrow> None
            | Some tableSection \<Rightarrow>
                if tableSection = [] then None
                else (let ms = parseTableRows tableSection
                      in if ms = [] then None
                         else Some \<lparr> members = ms,
                                     totalMembers = length ms,
                                     investigationComplete =
                                       isInvestigationComplete messageContent,
                                     billId = extractBillId messageContent,
                                     hasDualTables = False,
                                     alignedMembers = None,
                                     opposedMembers = None \<rparr>)))"

text \<open>
  Every operation above is total on strings, so the \<open>try\<close> blocks of the source never reach
  their \<open>catch\<close> on a string argument; \<open>None\<close> is the \<open>null\<close> result.
\<close>

definition parseOrchestratorTable :: "string \<Rightarrow> ParsedTable option" where
  "parseOrchestratorTable messageContent =
     (if detectDualTables messageContent then parseDualTables messageContent
      else parseSingleTable messageContent)"

definition parseCongressTable :: "string \<Rightarrow> ParsedTable option" where
  "parseCongressTable messageContent = parseOrchestratorTable messageContent"

section \<open>The transport layer\<close>

subsection \<open>Wire messages\<close>

text \<open>
  A value of type \<open>any\<close> is known to the code through its \<open>JSON.stringify\<close> text and its
  truthiness only; \<open>js_any\<close> holds these two observations.
\<close>

record js_any =
  stringified :: string
  truthy :: bool

record ToolCall =
  tc_id :: string
  tc_name :: string
  tc_arguments :: js_any

record ToolResult =
  call_id :: string
  content :: "js_any option"
  is_error :: bool

record Details =
  key_findings :: "string list option"
  data_points :: "string option"

record TableData =
  td_stringified :: string
  td_members_length :: "nat option"

text \<open>
  The payload \<open>message.data\<close>, with the properties the handlers read. A property that is
  absent is \<open>None\<close>; \<open>d_stringified\<close> is \<open>JSON.stringify(data, null, 2)\<close>.
\<close>

record Payload =
  d_id :: "string option"
  d_agent :: "string option"
  d_type :: "string option"
  d_simplified :: "string option"
  d_fullContent :: "string option"
  d_toolCalls :: "ToolCall list option"
  d_results :: "ToolResult list option"
  d_status :: "string option"
  d_name :: "string option"
  d_arguments :: "js_any option"
  d_summary :: "string option"
  d_details :: "Details option"
  d_result :: "js_any option"
  d_success :: bool
  d_table_available :: bool
  d_table_data :: "TableData option"
  d_conclusion_message :: "string option"
  d_table_status :: "string option"
  d_stringified :: string

record WebSocketMessage =
  m_type :: string
  m_sessionId :: "string option"
  m_timestamp :: string
  m_data :: "Payload option"
  m_message :: "string option"
  m_error :: "string option"

text \<open>\<open>a || b\<close> on optional strings, and \<open>${a}\<close> in a template string.\<close>

definition str_truthy :: "string option \<Rightarrow> bool" where
  "str_truthy a = (case a of None \<Rightarrow> False | Some s \<Rightarrow> s \<noteq> [])"

definition or_else :: "string option \<Rightarrow> string \<Rightarrow> string" where
  "or_else a b = (case a of None \<Rightarrow> b | Some s \<Rightarrow> if s = [] then b else s)"

definition tmpl :: "string option \<Rightarrow> string" where
  "tmpl a = (case a of None \<Rightarrow> ''undefined'' | Some s \<Rightarrow> s)"

subsection \<open>The service\<close>

datatype readyState = CONNECTING | OPEN | CLOSING | CLOSED

datatype 'a promise = Pending | Resolved 'a | Rejected string

text \<open>A promise keeps its first settlement; later calls of resolve or reject do nothing.\<close>

definition settle :: "'a promise \<Rightarrow> 'a promise \<Rightarrow> 'a promise" where
  "settle p r = (case p of Pending \<Rightarrow> r | _ \<Rightarrow> p)"

datatype request = StartInvestigationRequest string string string

text \<open>
  What \<open>setTimeout\<close> was asked to run: the reconnect of the close handler, or the timeout
  of the start promise with the given index. A timer is kept with its delay in milliseconds.
\<close>

datatype timer = ReconnectTimer | StartTimeout nat

text \<open>
  The fields of \<open>WebSocketService\<close> other than the handler registry, with the start
  promises created so far, the requests sent on the socket and the timers set. \<open>ws\<close> is
  the ready state of the current socket, \<open>None\<close> for \<open>null\<close>.
\<close>

record WebSocketFields =
  ws :: "readyState option"
  reconnectAttempts :: nat
  isManualClose :: bool
  sessionId :: "string option"
  startPromises :: "string promise list"
  sent :: "request list"
  timers :: "(timer \<times> nat) list"

definition maxReconnectAttempts :: nat where
  "maxReconnectAttempts = 5"

definition reconnectInterval :: nat where
  "reconnectInterval = 1000"

text \<open>
  A registered handler is a closure. Run on a message it may change the fields (the
  handlers of the service settle a promise), call \<open>offMessage\<close> (the identifiers are
  listed in \<open>offMessages\<close>) and return or throw. No handler of the repository calls
  \<open>onMessage\<close> while a message is dispatched, and the model has no such handler.
\<close>

record handler_run =
  fields_after :: WebSocketFields
  offMessages :: "string list"
  threw :: bool

type_synonym handler = "WebSocketMessage \<Rightarrow> WebSocketFields \<Rightarrow> handler_run"

text \<open>The \<open>Map\<close> of handlers, in insertion order.\<close>

record WebSocketService =
  core :: WebSocketFields
  messageHandlers :: "(string \<times> handler) list"

definition isConnected :: "WebSocketFields \<Rightarrow> bool" where
  "isConnected s = (ws s = Some OPEN)"

text \<open>\<open>Map.set\<close> keeps the place of a key that is present and appends a new key.\<close>

fun map_set :: "string \<Rightarrow> 'v \<Rightarrow> (string \<times> 'v) list \<Rightarrow> (string \<times> 'v) list" where
  "map_set k v [] = [(k, v)]"
| "map_set k v ((k', v') # rest) =
     (if k' = k then (k, v) # rest else (k', v') # map_set k v rest)"


definition map_delete_all :: "string list \<Rightarrow> (string \<times> 'v) list \<Rightarrow> (string \<times> 'v) list" where
  "map_delete_all ks m = filter (\<lambda>e. fst e \<notin> set ks) m"

definition onMessage :: "string \<Rightarrow> handler \<Rightarrow> WebSocketService \<Rightarrow> WebSocketService" where
  "onMessage ident h s = s\<lparr>messageHandlers := map_set ident h (messageHandlers s)\<rparr>"


subsection \<open>Connection and reconnection\<close>

text \<open>
  \<open>connect()\<close> up to the point where it returns its promise: nothing happens on an open
  socket, otherwise the manual-close flag is cleared and a new socket is created.
\<close>

definition connect :: "WebSocketFields \<Rightarrow> WebSocketFields" where
  "connect s =
     (if ws s = Some OPEN then s
      else s\<lparr>isManualClose := False, ws := Some CONNECTING\<rparr>)"

text \<open>The \<open>onopen\<close> handler of a socket; the browser has set its ready state to OPEN.\<close>

definition onopen :: "WebSocketFields \<Rightarrow> WebSocketFields" where
  "onopen s = s\<lparr>reconnectAttempts := 0\<rparr>"

text \<open>
  The \<open>onclose\<close> handler: it reads the flag and the counter and may set the reconnect
  timer, whose delay is computed from the counter as it is when the socket closes.
\<close>

definition onclose :: "WebSocketFields \<Rightarrow> WebSocketFields" where
  "onclose s =
     (if \<not> isManualClose s \<and> reconnectAttempts s < maxReconnectAttempts
      then s\<lparr>timers := timers s @ [(ReconnectTimer, reconnectInterval * reconnectAttempts s)]\<rparr>
      else s)"

text \<open>The callback of the reconnect timer.\<close>

definition reconnectTimerFires :: "WebSocketFields \<Rightarrow> WebSocketFields" where
  "reconnectTimerFires s = connect (s\<lparr>reconnectAttempts := reconnectAttempts s + 1\<rparr>)"

definition disconnect :: "WebSocketFields \<Rightarrow> WebSocketFields" where
  "disconnect s = s\<lparr>isManualClose := True, ws := None\<rparr>"

text \<open>
  The events that reach the reconnection logic, and a run of the service over a list of
  them. \<open>SocketOpened\<close> and \<open>SocketClosed\<close> are the open and close events of a socket the
  service created, \<open>ReconnectTimerFired\<close> is the timer callback, and
  \<open>ReadyStateChanged\<close> is the browser changing the ready state of the current socket,
  which the handlers do not read and \<open>connect\<close> does.
\<close>

datatype connection_event =
  SocketOpened | SocketClosed | ReconnectTimerFired | ConnectCalled | DisconnectCalled |
  ReadyStateChanged readyState

fun connection_step :: "WebSocketFields \<Rightarrow> connection_event \<Rightarrow> WebSocketFields" where
  "connection_step s SocketOpened = onopen s"
| "connection_step s SocketClosed = onclose s"
| "connection_step s ReconnectTimerFired = reconnectTimerFires s"
| "connection_step s ConnectCalled = connect s"
| "connection_step s DisconnectCalled = disconnect s"
| "connection_step s (ReadyStateChanged r) =
     (case ws s of None \<Rightarrow> s | Some _ \<Rightarrow> s\<lparr>ws := Some r\<rparr>)"

definition connection_run ::
  "WebSocketFields \<Rightarrow> connection_event list \<Rightarrow> WebSocketFields" where
  "connection_run s evs = foldl connection_step s evs"

subsection \<open>Dispatch to the handlers\<close>

text \<open>
  \<open>messageHandlers.forEach\<close> in \<open>handleMessage\<close>, with the \<open>try\<close> and \<open>catch\<close> around
  each call. \<open>pending\<close> are the entries the iteration has not reached yet; an entry
  deleted before the iteration reaches it is not visited. The result is the service after
  the dispatch and the calls made, in order: the identifier of the handler and what its
  run did. \<open>handleMessage\<close> returns to its caller whatever the handlers do.
\<close>

record dispatch =
  service :: WebSocketService
  calls :: "(string \<times> handler_run) list"

function forEachHandler ::
  "WebSocketMessage \<Rightarrow> (string \<times> handler) list \<Rightarrow> WebSocketService \<Rightarrow>
     (string \<times> handler_run) list \<Rightarrow> dispatch" where
  "forEachHandler msg [] s made = \<lparr> service = s, calls = made \<rparr>"
| "forEachHandler msg ((ident, h) # pending) s made =
     (let r = h msg (core s);
          removed = (if threw r then offMessages r @ [ident] else offMessages r);
          s' = \<lparr> core = fields_after r,
                 messageHandlers = map_delete_all removed (messageHandlers s) \<rparr>
      in forEachHandler msg (map_delete_all removed pending) s' (made @ [(ident, r)]))"
  by pat_completeness auto
termination
  by (relation "measure (\<lambda>(msg, pending, s, made). length pending)")
     (auto simp: map_delete_all_def less_Suc_eq_le)

definition handleMessage :: "WebSocketMessage \<Rightarrow> WebSocketService \<Rightarrow> dispatch" where
  "handleMessage msg s = forEachHandler msg (messageHandlers s) s []"

subsection \<open>Starting an investigation\<close>

definition settle_at :: "nat \<Rightarrow> 'a promise \<Rightarrow> 'a promise list \<Rightarrow> 'a promise list" where
  "settle_at p r ps = (if p < length ps then ps[p := settle (ps ! p) r] else ps)"

definition start_confirmations :: "string list" where
  "start_confirmations = [''investigation_started'', ''agent_communication'', ''tool_call_start'']"

text \<open>
  The closure \<open>handleStart\<close> of the start promise with index \<open>p\<close>. \<open>message.sessionId ===
  this.sessionId\<close> holds when the message has a session id and it is the one of the
  service: an absent property is \<open>undefined\<close>, which is not \<open>null\<close>.
\<close>

definition handleStart :: "nat \<Rightarrow> handler" where
  "handleStart p message f =
     (if m_type message \<in> set start_confirmations \<and>
         m_sessionId message \<noteq> None \<and> m_sessionId message = sessionId f
      then \<lparr> fields_after =
               f\<lparr>startPromises :=
                    settle_at p (Resolved (tmpl (sessionId f))) (startPromises f)\<rparr>,
             offMessages = [''start_handler''], threw = False \<rparr>
      else if m_type message = ''investigation_error''
      then \<lparr> fields_after =
               f\<lparr>startPromises :=
                    settle_at p
                      (Rejected (if str_truthy (m_error message) then tmpl (m_error message)
                                 else or_else (m_message message)
                                        ''Investigation failed to start''))
                      (startPromises f)\<rparr>,
             offMessages = [''start_handler''], threw = False \<rparr>
      else if m_type message = ''error'' \<and>
              (case m_message message of
                 None \<Rightarrow> False
               | Some text \<Rightarrow> str_includes text ''investigation'')
      then \<lparr> fields_after =
               f\<lparr>startPromises :=
                    settle_at p (Rejected (or_else (m_message message) ''Unknown error''))
                      (startPromises f)\<rparr>,
             offMessages = [''start_handler''], threw = False \<rparr>
      else \<lparr> fields_after = f, offMessages = [], threw = False \<rparr>)"

text \<open>
  \<open>startInvestigation\<close>, with the session id it generates from the clock and the random
  number generator as the argument \<open>newId\<close>. The result is the service and the index of the
  promise returned.
\<close>

definition startInvestigation ::
  "string \<Rightarrow> string \<Rightarrow> string \<Rightarrow> WebSocketService \<Rightarrow> WebSocketService \<times> nat" where
  "startInvestigation newId company bill s =
     (let f = core s; p = length (startPromises f)
      in if ws f \<noteq> Some OPEN
         then (s\<lparr>core := f\<lparr>startPromises :=
                               startPromises f @ [Rejected ''WebSocket not connected'']\<rparr>\<rparr>, p)
         else (onMessage ''start_handler'' (handleStart p)
                 (s\<lparr>core := f\<lparr>sessionId := Some newId,
                               startPromises := startPromises f @ [Pending],
                               sent := sent f @ [StartInvestigationRequest newId company bill],
                               timers := timers f @ [(StartTimeout p, 30000)]\<rparr>\<rparr>), p))"


section \<open>The session orchestrator\<close>








subsection \<open>The enrichment of a communication\<close>







subsection \<open>The handlers of the wire-message types\<close>

text \<open>
  The service holds the transport, the session fields and the registered callback. A
  handler returns the service and the communications it passed to the callback, in order.
  \<open>now\<close> is the value of \<open>Date.now()\<close>.
\<close>

record 'cb RealTimeService =
  websocketService :: WebSocketService
  sessionActive :: bool
  currentSessionId :: "string option"
  communicationCallback :: "'cb option"









subsection \<open>Starting a session\<close>

text \<open>
  \<open>startSession\<close> awaits the connection and the start promise. How the two settle is decided
  outside the service: \<open>connected\<close> tells whether the socket opened, and \<open>started\<close> is
  the settlement of the start promise. The result is the service and the error thrown, if
  any.
\<close>

definition startSession ::
  "string \<Rightarrow> string \<Rightarrow> string \<Rightarrow> 'cb \<Rightarrow> bool \<Rightarrow> string promise \<Rightarrow> 'cb RealTimeService \<Rightarrow>
     'cb RealTimeService \<times> string option" where
  "startSession newId company bill callback connected started s =
     (if sessionActive s then (s, Some ''Investigation session is already active'')
      else
        (let w = websocketService s;
             w1 = (if isConnected (core w) then w else w\<lparr>core := connect (core w)\<rparr>)
         in if \<not> isConnected (core w) \<and> \<not> connected
            then (s\<lparr>websocketService := w1\<rparr>,
                  Some ''Unable to connect to AutoGen server. Please ensure the server is running.'')
            else
              (let w2 = (if isConnected (core w) then w1
                         else w1\<lparr>core := onopen ((core w1)\<lparr>ws := Some OPEN\<rparr>)\<rparr>);
                   w3 = fst (startInvestigation newId company bill w2);
                   s1 = s\<lparr>websocketService := w3, communicationCallback := Some callback\<rparr>
               in case started of
                    Resolved sid \<Rightarrow>
                      (s1\<lparr>currentSessionId := Some sid, sessionActive := True\<rparr>, None)
                  | Rejected err \<Rightarrow> (s1\<lparr>communicationCallback := None\<rparr>, Some err)
                  | Pending \<Rightarrow> (s1, None))))"

section \<open>Notions for the statements and example inputs\<close>

definition header_line :: string where
  "header_line = ''| Congress Member | Chamber | State/District | Involvement Rank | Reason |''"

definition manchin_row :: string where
  "manchin_row = ''| Joe Manchin (D) | Senator | WV | 1 | Sponsor |''"

definition manchin :: CongressMember where
  "manchin = \<lparr> name = ''Joe Manchin'', chamber = ''Senator'', party = Some ''Democrat'',
               state = ''WV'', district = None, rank = 1, reason = ''Sponsor'' \<rparr>"

definition one_row_table :: string where
  "one_row_table = join [header_line, manchin_row]"

subsection \<open>The layout of a single table\<close>





definition barrasso_row :: string where
  "barrasso_row = ''| John Barrasso (R-WY) | Senator | WY | 2 | Chair |''"

definition barrasso :: CongressMember where
  "barrasso = \<lparr> name = ''John Barrasso'', chamber = ''Senator'', party = Some ''Republican'',
                state = ''WY'', district = None, rank = 2, reason = ''Chair'' \<rparr>"




definition two_headers :: string where
  "two_headers = join [header_line, header_line]"

definition dual_text :: string where
  "dual_text = join [header_line, manchin_row, [], header_line, barrasso_row]"




subsection \<open>Registries, runs and services\<close>

text \<open>
  The identifiers registered in a handler map, the number of reconnect timer callbacks in
  a list of events, and one round of closing, reconnecting and opening.
\<close>

definition registered_ids :: "(string \<times> 'v) list \<Rightarrow> string set" where
  "registered_ids m = fst ` set m"

definition fired :: "connection_event list \<Rightarrow> nat" where
  "fired evs = length (filter (\<lambda>e. e = ReconnectTimerFired) evs)"


definition five_failures :: "connection_event list" where
  "five_failures = concat (replicate 5 [SocketClosed, ReconnectTimerFired])"

definition failed_attempt :: "connection_event list" where
  "failed_attempt =
     [ReadyStateChanged CLOSED, SocketClosed, ReconnectTimerFired,
      ReadyStateChanged CLOSED, SocketClosed]"


definition idle_fields :: WebSocketFields where
  "idle_fields = \<lparr> ws = Some OPEN, reconnectAttempts = 0, isManualClose = False,
                   sessionId = None, startPromises = [], sent = [], timers = [] \<rparr>"

definition open_service :: WebSocketService where
  "open_service = \<lparr> core = idle_fields, messageHandlers = [] \<rparr>"


definition wire_message :: "string \<Rightarrow> WebSocketMessage" where
  "wire_message t = \<lparr> m_type = t, m_sessionId = Some ''session_1'',
                      m_timestamp = ''2025-01-01T00:00:00.000Z'', m_data = None,
                      m_message = None, m_error = None \<rparr>"

definition returning_handler :: handler where
  "returning_handler msg f = \<lparr> fields_after = f, offMessages = [], threw = False \<rparr>"

definition throwing_handler :: handler where
  "throwing_handler msg f = \<lparr> fields_after = f, offMessages = [], threw = True \<rparr>"

definition three_handlers :: WebSocketService where
  "three_handlers =
     \<lparr> core = idle_fields,
       messageHandlers = [(''logger'', returning_handler), (''faulty'', throwing_handler),
                          (''realtime_service'', returning_handler)] \<rparr>"

definition listening_service :: "unit RealTimeService" where
  "listening_service =
     \<lparr> websocketService = open_service, sessionActive = True,
       currentSessionId = Some ''session_1'', communicationCallback = Some () \<rparr>"






section \<open>Properties of the table parser\<close>

lemma parseDualTables_members:
  "parseDualTables text = Some t \<Longrightarrow> members t \<noteq> [] \<and> totalMembers t = length (members t)"
  by (auto simp: parseDualTables_def Let_def split: if_splits)

lemma parseSingleTable_members:
  "parseSingleTable text = Some t \<Longrightarrow> members t \<noteq> [] \<and> totalMembers t = length (members t)"
  by (auto simp: parseSingleTable_def Let_def split: if_splits option.splits)

lemma one_row_table_parsed:
  "parseCongressTable one_row_table =
     Some \<lparr> members = [manchin], totalMembers = 1, investigationComplete = False,
            billId = None, hasDualTables = False, alignedMembers = None,
            opposedMembers = None \<rparr>"
  by code_simp

text \<open>
  C7. \<open>parseCongressTable\<close> is a total function from strings to an optional table: on
  every string it returns, and it returns either \<open>null\<close> or a table. A table it returns
  has at least one member, and \<open>totalMembers\<close> counts the members; so a table that was
  detected and has no valid row gives \<open>null\<close>.
\<close>

theorem parseCongressTable_null_or_members:
  "parseCongressTable text = Some t \<Longrightarrow>
     members t \<noteq> [] \<and> totalMembers t = length (members t)"
  unfolding parseCongressTable_def parseOrchestratorTable_def
  by (auto dest: parseDualTables_members parseSingleTable_members split: if_splits)

theorem parseCongressTable_null_or_members_witness:
  "parseCongressTable one_row_table \<noteq> None \<and>
   members (the (parseCongressTable one_row_table)) \<noteq> [] \<and>
   totalMembers (the (parseCongressTable one_row_table)) =
     length (members (the (parseCongressTable one_row_table)))"
  using parseCongressTable_null_or_members [OF one_row_table_parsed]
  by (simp add: one_row_table_parsed)

subsection \<open>Lines and rows\<close>

lemma split_nonempty: "split d s \<noteq> []"
  by (induction s) (auto split: list.splits)











subsection \<open>Tables by order\<close>

lemma collectTables_length:
  "length (collectTables found [] False ls) = length found + length (filter is_table_header ls) \<and>
   (cur \<noteq> [] \<longrightarrow>
      length (collectTables found cur True ls) =
        Suc (length found + length (filter is_table_header ls)))"
proof (induction ls arbitrary: found cur)
  case Nil
  then show ?case by simp
next
  case (Cons l ls)
  have a: "\<And>f. length (collectTables f [] False ls) = length f + length (filter is_table_header ls)"
    using Cons.IH by blast
  have b: "\<And>f c. c \<noteq> [] \<Longrightarrow>
      length (collectTables f c True ls) = Suc (length f + length (filter is_table_header ls))"
    using Cons.IH by blast
  show ?case by (simp add: a b)
qed

lemma tablesFound_length: "length (tablesFound text) = tableHeaderCount text"
  using collectTables_length[of "[]" "lines_of text" "[]"]
  by (simp add: tablesFound_def tableHeaderCount_def)

lemma length_two: "length xs = 2 \<Longrightarrow> \<exists>a b. xs = [a, b]"
  by (cases xs; cases "tl xs") auto

lemma parseTableRows_Nil [simp]: "parseTableRows [] = []"
  by (simp add: parseTableRows_def lines_of_def trim_def skipped_row_def)


subsection \<open>The section of a single table\<close>











subsection \<open>Evaluations of the example inputs\<close>

lemma dual_text_detected: "detectDualTables dual_text"
  by code_simp

lemma dual_text_tables:
  "tablesFound dual_text = [join [header_line, manchin_row], join [header_line, barrasso_row]]"
  by code_simp

lemma example_rows:
  "parseTableRows (join [header_line, manchin_row]) = [manchin]"
  "parseTableRows (join [header_line, barrasso_row]) = [barrasso]"
  by code_simp+

lemma one_row_table_not_dual: "\<not> detectDualTables one_row_table"
  by code_simp





subsection \<open>Two tables\<close>

text \<open>
  C2, as the claim states it, fails: a text with exactly two header lines and no valid row
  is parsed in dual-table mode and the result is \<open>null\<close>, not a table with
  \<open>hasDualTables = true\<close>.
\<close>

theorem two_headers_without_rows_null:
  "detectDualTables two_headers \<and> parseCongressTable two_headers = None"
  by code_simp

text \<open>
  C2, amended. For every text with exactly two header lines, the extraction finds exactly
  two tables, and the parser returns \<open>null\<close> when neither has a valid row and otherwise a
  table with \<open>hasDualTables = true\<close> whose \<open>alignedMembers\<close> are the rows of the first
  extracted table, whose \<open>opposedMembers\<close> are the rows of the second and whose
  \<open>members\<close> are the two lists in this order. With any other number of header lines the
  result is that of the single-table path.
\<close>

theorem dual_tables_by_order:
  "(detectDualTables text \<longrightarrow>
      (\<exists>first second.
         tablesFound text = [first, second] \<and>
         parseCongressTable text =
           (if parseTableRows first = [] \<and> parseTableRows second = [] then None
            else Some \<lparr> members = parseTableRows first @ parseTableRows second,
                        totalMembers = length (parseTableRows first @ parseTableRows second),
                        investigationComplete = isInvestigationComplete text,
                        billId = extractBillId text,
                        hasDualTables = True,
                        alignedMembers = Some (parseTableRows first),
                        opposedMembers = Some (parseTableRows second) \<rparr>))) \<and>
   (\<not> detectDualTables text \<longrightarrow> parseCongressTable text = parseSingleTable text)"
proof (intro conjI impI)
  assume d: "detectDualTables text"
  then have "length (tablesFound text) = 2"
    by (simp add: tablesFound_length detectDualTables_def)
  then obtain a b where ab: "tablesFound text = [a, b]" using length_two by blast
  have "parseCongressTable text = parseDualTables text"
    using d by (simp add: parseCongressTable_def parseOrchestratorTable_def)
  also have "\<dots> = (if parseTableRows a = [] \<and> parseTableRows b = [] then None
            else Some \<lparr> members = parseTableRows a @ parseTableRows b,
                        totalMembers = length (parseTableRows a @ parseTableRows b),
                        investigationComplete = isInvestigationComplete text,
                        billId = extractBillId text,
                        hasDualTables = True,
                        alignedMembers = Some (parseTableRows a),
                        opposedMembers = Some (parseTableRows b) \<rparr>)"
    by (simp add: parseDualTables_def extractTableByOrder_def ab Let_def)
  finally show "\<exists>first second.
         tablesFound text = [first, second] \<and>
         parseCongressTable text =
           (if parseTableRows first = [] \<and> parseTableRows second = [] then None
            else Some \<lparr> members = parseTableRows first @ parseTableRows second,
                        totalMembers = length (parseTableRows first @ parseTableRows second),
                        investigationComplete = isInvestigationComplete text,
                        billId = extractBillId text,
                        hasDualTables = True,
                        alignedMembers = Some (parseTableRows first),
                        opposedMembers = Some (parseTableRows second) \<rparr>)"
    using ab by blast
next
  assume "\<not> detectDualTables text"
  then show "parseCongressTable text = parseSingleTable text"
    by (simp add: parseCongressTable_def parseOrchestratorTable_def)
qed

theorem dual_tables_by_order_witness:
  "detectDualTables dual_text \<and>
   parseCongressTable dual_text =
     Some \<lparr> members = [manchin, barrasso], totalMembers = 2,
            investigationComplete = isInvestigationComplete dual_text,
            billId = extractBillId dual_text, hasDualTables = True,
            alignedMembers = Some [manchin], opposedMembers = Some [barrasso] \<rparr> \<and>
   \<not> detectDualTables one_row_table \<and>
   parseCongressTable one_row_table = parseSingleTable one_row_table"
proof -
  from dual_tables_by_order [of dual_text] dual_text_detected
  obtain a b where ab: "tablesFound dual_text = [a, b]"
    and p: "parseCongressTable dual_text =
      (if parseTableRows a = [] \<and> parseTableRows b = [] then None
       else Some \<lparr> members = parseTableRows a @ parseTableRows b,
                   totalMembers = length (parseTableRows a @ parseTableRows b),
                   investigationComplete = isInvestigationComplete dual_text,
                   billId = extractBillId dual_text,
                   hasDualTables = True,
                   alignedMembers = Some (parseTableRows a),
                   opposedMembers = Some (parseTableRows b) \<rparr>)"
    by blast
  from ab have a: "a = join [header_line, manchin_row]"
    and b: "b = join [header_line, barrasso_row]"
    unfolding dual_text_tables by simp_all
  have "parseCongressTable dual_text =
     Some \<lparr> members = [manchin, barrasso], totalMembers = 2,
            investigationComplete = isInvestigationComplete dual_text,
            billId = extractBillId dual_text, hasDualTables = True,
            alignedMembers = Some [manchin], opposedMembers = Some [barrasso] \<rparr>"
    unfolding p a b example_rows by simp
  moreover have "parseCongressTable one_row_table = parseSingleTable one_row_table"
    using dual_tables_by_order [of one_row_table] one_row_table_not_dual by blast
  ultimately show ?thesis
    using dual_text_detected one_row_table_not_dual by blast
qed

subsection \<open>One table\<close>




subsection \<open>Ranks\<close>





section \<open>Properties of the transport layer\<close>

subsection \<open>Reconnection\<close>

lemma connect_attempts [simp]: "reconnectAttempts (connect s) = reconnectAttempts s"
  by (simp add: connect_def)
lemma connect_timers [simp]: "timers (connect s) = timers s"
  by (simp add: connect_def)
lemma connect_manual: "\<not> isManualClose s \<Longrightarrow> \<not> isManualClose (connect s)"
  by (simp add: connect_def)

lemma run_Cons: "connection_run s (e # evs) = connection_run (connection_step s e) evs"
  by (simp add: connection_run_def)
lemma run_Nil: "connection_run s [] = s"
  by (simp add: connection_run_def)
lemma run_append: "connection_run s (evs @ evs') = connection_run (connection_run s evs) evs'"
  by (simp add: connection_run_def)

lemma attempts_without_open:
  "SocketOpened \<notin> set evs \<Longrightarrow>
     reconnectAttempts (connection_run s evs) = reconnectAttempts s + fired evs"
proof (induction evs arbitrary: s)
  case Nil
  then show ?case by (simp add: run_Nil fired_def)
next
  case (Cons e evs)
  then show ?case
    by (cases e)
       (auto simp: run_Cons fired_def onclose_def onopen_def reconnectTimerFires_def
          disconnect_def split: option.splits)
qed

lemma exhausted_stays:
  "maxReconnectAttempts \<le> reconnectAttempts s \<Longrightarrow> SocketOpened \<notin> set evs \<Longrightarrow>
     timers (connection_run s evs) = timers s"
proof (induction evs arbitrary: s)
  case Nil
  then show ?case by (simp add: run_Nil)
next
  case (Cons e evs)
  then show ?case
    by (cases e)
       (auto simp: run_Cons onclose_def reconnectTimerFires_def disconnect_def
          split: option.splits)
qed

lemma manual_stays:
  "isManualClose s \<Longrightarrow> \<forall>e\<in>set evs. e \<noteq> ConnectCalled \<and> e \<noteq> ReconnectTimerFired \<Longrightarrow>
     timers (connection_run s evs) = timers s"
proof (induction evs arbitrary: s)
  case Nil
  then show ?case by (simp add: run_Nil)
next
  case (Cons e evs)
  then show ?case
    by (cases e)
       (auto simp: run_Cons onclose_def onopen_def disconnect_def split: option.splits)
qed

text \<open>
  The guard of the close handler. When a socket closes, a reconnect timer is set exactly
  when the manual-close flag is clear and the attempt counter is below 5, and its delay is
  1000 ms times the counter. Once five reconnect timers have fired with no socket opening
  in between, no event other than the opening of a socket makes the service set a timer
  again. After \<open>disconnect()\<close> the flag is set, and no closing socket sets a timer as
  long as \<open>connect\<close> is not run, by the caller or by a timer set earlier.
\<close>

theorem reconnect_budget:
  "timers (onclose s) =
     (if \<not> isManualClose s \<and> reconnectAttempts s < 5
      then timers s @ [(ReconnectTimer, 1000 * reconnectAttempts s)] else timers s) \<and>
   (SocketOpened \<notin> set (evs @ later) \<longrightarrow> 5 \<le> fired evs \<longrightarrow>
      timers (connection_run s (evs @ later)) = timers (connection_run s evs)) \<and>
   ((\<forall>e\<in>set evs'. e \<noteq> ConnectCalled \<and> e \<noteq> ReconnectTimerFired) \<longrightarrow>
      isManualClose (disconnect s) \<and>
      timers (connection_run (disconnect s) evs') = timers s)"
proof (intro conjI impI)
  show "timers (onclose s) =
     (if \<not> isManualClose s \<and> reconnectAttempts s < 5
      then timers s @ [(ReconnectTimer, 1000 * reconnectAttempts s)] else timers s)"
    by (simp add: onclose_def maxReconnectAttempts_def reconnectInterval_def)
next
  assume a: "SocketOpened \<notin> set (evs @ later)" and f: "5 \<le> fired evs"
  have "maxReconnectAttempts \<le> reconnectAttempts (connection_run s evs)"
    using a f by (simp add: attempts_without_open maxReconnectAttempts_def)
  then show "timers (connection_run s (evs @ later)) = timers (connection_run s evs)"
    using a by (simp add: run_append exhausted_stays)
next
  show "isManualClose (disconnect s)" by (simp add: disconnect_def)
next
  assume "\<forall>e\<in>set evs'. e \<noteq> ConnectCalled \<and> e \<noteq> ReconnectTimerFired"
  then have "timers (connection_run (disconnect s) evs') = timers (disconnect s)"
    by (intro manual_stays) (simp_all add: disconnect_def)
  then show "timers (connection_run (disconnect s) evs') = timers s"
    by (simp add: disconnect_def)
qed

theorem reconnect_budget_witness:
  "timers (onclose idle_fields) = [(ReconnectTimer, 0)] \<and>
   map snd (timers (connection_run idle_fields five_failures)) = [0, 1000, 2000, 3000, 4000] \<and>
   timers (connection_run idle_fields (five_failures @ [SocketClosed, ConnectCalled, SocketClosed])) =
     timers (connection_run idle_fields five_failures) \<and>
   isManualClose (disconnect idle_fields) \<and>
   timers (connection_run (disconnect idle_fields) [SocketClosed, SocketClosed]) = []"
proof -
  have f: "SocketOpened \<notin> set (five_failures @ [SocketClosed, ConnectCalled, SocketClosed])"
    "5 \<le> fired five_failures"
    by (simp_all add: five_failures_def fired_def eval_nat_numeral)
  have e: "\<forall>e\<in>set [SocketClosed, SocketClosed]. e \<noteq> ConnectCalled \<and> e \<noteq> ReconnectTimerFired"
    by simp
  have d: "map snd (timers (connection_run idle_fields five_failures)) =
      [0, 1000, 2000, 3000, 4000]"
    by (simp add: five_failures_def connection_run_def eval_nat_numeral onclose_def
        reconnectTimerFires_def connect_def idle_fields_def maxReconnectAttempts_def
        reconnectInterval_def)
  note r = reconnect_budget [of idle_fields five_failures
      "[SocketClosed, ConnectCalled, SocketClosed]" "[SocketClosed, SocketClosed]"]
  have a: "timers (onclose idle_fields) = [(ReconnectTimer, 0)]"
    using r [THEN conjunct1] by (simp add: idle_fields_def)
  have b: "timers (connection_run idle_fields
              (five_failures @ [SocketClosed, ConnectCalled, SocketClosed])) =
      timers (connection_run idle_fields five_failures)"
    using r [THEN conjunct2, THEN conjunct1] f by blast
  have c: "isManualClose (disconnect idle_fields) \<and>
      timers (connection_run (disconnect idle_fields) [SocketClosed, SocketClosed]) =
        timers idle_fields"
    using r [THEN conjunct2, THEN conjunct2] e by blast
  from a b c d show ?thesis by (simp add: idle_fields_def)
qed

text \<open>
  C6. The claim holds for the guard of the close handler (above) and fails after
  \<open>disconnect()\<close>: a reconnect timer that was set before \<open>disconnect()\<close> is not
  cancelled, and its callback calls \<open>connect()\<close> without reading the flag, which clears
  the flag and opens a socket. In the run below a connected socket closes, the first
  reconnect attempt fails and sets the second timer (1000 ms), the caller disconnects, the
  second timer fires and the new socket closes: the service reconnects after the manual
  disconnect and sets a third timer.
\<close>

theorem reconnect_after_disconnect:
  "timers (connection_run idle_fields failed_attempt) =
     [(ReconnectTimer, 0), (ReconnectTimer, 1000)] \<and>
   isManualClose (connection_run idle_fields (failed_attempt @ [DisconnectCalled])) \<and>
   ws (connection_run idle_fields (failed_attempt @ [DisconnectCalled])) = None \<and>
   ws (connection_run idle_fields
         (failed_attempt @ [DisconnectCalled, ReconnectTimerFired])) = Some CONNECTING \<and>
   \<not> isManualClose (connection_run idle_fields
         (failed_attempt @ [DisconnectCalled, ReconnectTimerFired])) \<and>
   timers (connection_run idle_fields
         (failed_attempt @
          [DisconnectCalled, ReconnectTimerFired, ReadyStateChanged CLOSED, SocketClosed])) =
     [(ReconnectTimer, 0), (ReconnectTimer, 1000), (ReconnectTimer, 2000)]"
  by (simp add: failed_attempt_def connection_run_def idle_fields_def onclose_def
      reconnectTimerFires_def connect_def disconnect_def maxReconnectAttempts_def
      reconnectInterval_def)





subsection \<open>Dispatch\<close>

lemma registered_ids_delete_all: "registered_ids (map_delete_all ks m) = registered_ids m - set ks"
  by (auto simp: registered_ids_def map_delete_all_def)

lemma forEach_calls_mono:
  "set made \<subseteq> set (calls (forEachHandler msg pending s made))"
proof (induction msg pending s made rule: forEachHandler.induct)
  case (1 msg s made)
  then show ?case by simp
next
  case (2 msg ident h pending s made)
  from "2.IH"[OF refl refl refl] show ?case by (simp add: Let_def)
qed

lemma forEach_registry_shrinks:
  "registered_ids (messageHandlers (service (forEachHandler msg pending s made))) \<subseteq> registered_ids (messageHandlers s)"
proof (induction msg pending s made rule: forEachHandler.induct)
  case (1 msg s made)
  then show ?case by simp
next
  case (2 msg ident h pending s made)
  from "2.IH"[OF refl refl refl] show ?case
    by (simp add: Let_def registered_ids_delete_all split: if_splits) blast+
qed

lemma forEach_thrower_removed:
  "\<forall>(i, r)\<in>set made. threw r \<longrightarrow> i \<notin> registered_ids (messageHandlers s) \<Longrightarrow>
   \<forall>(i, r)\<in>set (calls (forEachHandler msg pending s made)).
      threw r \<longrightarrow> i \<notin> registered_ids (messageHandlers (service (forEachHandler msg pending s made)))"
proof (induction msg pending s made rule: forEachHandler.induct)
  case (1 msg s made)
  then show ?case by simp
next
  case (2 msg ident h pending s made)
  let ?r = "h msg (core s)"
  let ?removed = "if threw ?r then offMessages ?r @ [ident] else offMessages ?r"
  let ?s' = "\<lparr> core = fields_after ?r,
               messageHandlers = map_delete_all ?removed (messageHandlers s) \<rparr>"
  have inv: "\<forall>(i, r)\<in>set (made @ [(ident, ?r)]). threw r \<longrightarrow> i \<notin> registered_ids (messageHandlers ?s')"
    using "2.prems" by (auto simp: registered_ids_delete_all)
  show ?case
    using "2.IH"[OF refl refl refl inv] by (simp add: Let_def)
qed

lemma forEach_called_or_unregistered:
  "\<forall>k\<in>registered_ids pending.
      k \<in> fst ` set (calls (forEachHandler msg pending s made)) \<or>
      (\<exists>(i, r)\<in>set (calls (forEachHandler msg pending s made)). k \<in> set (offMessages r))"
proof (induction msg pending s made rule: forEachHandler.induct)
  case (1 msg s made)
  then show ?case by (simp add: registered_ids_def)
next
  case (2 msg ident h pending s made)
  let ?r = "h msg (core s)"
  let ?removed = "if threw ?r then offMessages ?r @ [ident] else offMessages ?r"
  let ?s' = "\<lparr> core = fields_after ?r,
               messageHandlers = map_delete_all ?removed (messageHandlers s) \<rparr>"
  let ?res = "forEachHandler msg (map_delete_all ?removed pending) ?s' (made @ [(ident, ?r)])"
  have res: "forEachHandler msg ((ident, h) # pending) s made = ?res"
    by (simp add: Let_def)
  have ih: "\<forall>k\<in>registered_ids (map_delete_all ?removed pending).
      k \<in> fst ` set (calls ?res) \<or> (\<exists>(i, r)\<in>set (calls ?res). k \<in> set (offMessages r))"
    by (rule "2.IH"[OF refl refl refl])
  have mem: "(ident, ?r) \<in> set (calls ?res)"
    using forEach_calls_mono[of "made @ [(ident, ?r)]" msg "map_delete_all ?removed pending" ?s']
    by auto
  show ?case unfolding res
  proof
    fix k assume k: "k \<in> registered_ids ((ident, h) # pending)"
    show "k \<in> fst ` set (calls ?res) \<or> (\<exists>(i, r)\<in>set (calls ?res). k \<in> set (offMessages r))"
    proof (cases "k = ident")
      case True
      then show ?thesis using mem by force
    next
      case False
      with k have kp: "k \<in> registered_ids pending" by (auto simp: registered_ids_def)
      show ?thesis
      proof (cases "k \<in> set ?removed")
        case True
        with False have "k \<in> set (offMessages ?r)" by (auto split: if_splits)
        then show ?thesis using mem by blast
      next
        case False
        with kp have "k \<in> registered_ids (map_delete_all ?removed pending)"
          by (simp add: registered_ids_delete_all)
        then show ?thesis using ih by blast
      qed
    qed
  qed
qed

lemma forEach_called_registered:
  "fst ` set (calls (forEachHandler msg pending s made)) \<subseteq> fst ` set made \<union> registered_ids pending"
proof (induction msg pending s made rule: forEachHandler.induct)
  case (1 msg s made)
  then show ?case by simp
next
  case (2 msg ident h pending s made)
  define r where "r = h msg (core s)"
  define removed where "removed = (if threw r then offMessages r @ [ident] else offMessages r)"
  define s' where "s' = \<lparr> core = fields_after r,
               messageHandlers = map_delete_all removed (messageHandlers s) \<rparr>"
  define res where "res = forEachHandler msg (map_delete_all removed pending) s' (made @ [(ident, r)])"
  have eq: "forEachHandler msg ((ident, h) # pending) s made = res"
    by (simp add: Let_def res_def s'_def removed_def r_def)
  have ih: "fst ` set (calls res) \<subseteq>
      fst ` set (made @ [(ident, r)]) \<union> registered_ids (map_delete_all removed pending)"
    unfolding res_def by (rule "2.IH"[OF r_def removed_def s'_def])
  have a: "fst ` set (made @ [(ident, r)]) = insert ident (fst ` set made)"
    by simp
  have b: "registered_ids (map_delete_all removed pending) \<subseteq> registered_ids pending"
    by (simp add: registered_ids_delete_all)
  have c: "registered_ids ((ident, h) # pending) = insert ident (registered_ids pending)"
    by (simp add: registered_ids_def)
  show ?case unfolding eq c using ih a b by blast
qed

text \<open>
  C8. \<open>handleMessage\<close> returns a dispatch whatever the handlers do, so no exception of a
  handler reaches its caller. A handler that threw is no longer registered after the
  dispatch and is not called for a later message. Every handler registered when the
  dispatch starts is called, unless a handler called before it unregistered it with
  \<open>offMessage\<close>: a handler that throws keeps no other handler from being called.
\<close>

theorem faulty_handler_removed:
  "(\<forall>(i, r)\<in>set (calls (handleMessage msg s)).
      threw r \<longrightarrow>
        i \<notin> registered_ids (messageHandlers (service (handleMessage msg s))) \<and>
        i \<notin> fst ` set (calls (handleMessage msg' (service (handleMessage msg s))))) \<and>
   (\<forall>k\<in>registered_ids (messageHandlers s).
      k \<in> fst ` set (calls (handleMessage msg s)) \<or>
      (\<exists>(i, r)\<in>set (calls (handleMessage msg s)). k \<in> set (offMessages r)))"
proof (intro conjI)
  let ?d = "handleMessage msg s"
  have a: "\<forall>(i, r)\<in>set (calls ?d). threw r \<longrightarrow> i \<notin> registered_ids (messageHandlers (service ?d))"
    unfolding handleMessage_def by (rule forEach_thrower_removed) simp
  have c: "fst ` set (calls (handleMessage msg' (service ?d))) \<subseteq> registered_ids (messageHandlers (service ?d))"
    unfolding handleMessage_def[of msg' "service ?d"]
    using forEach_called_registered[of msg' "messageHandlers (service ?d)" "service ?d" "[]"]
    by simp
  show "\<forall>(i, r)\<in>set (calls ?d). threw r \<longrightarrow>
        i \<notin> registered_ids (messageHandlers (service ?d)) \<and>
        i \<notin> fst ` set (calls (handleMessage msg' (service ?d)))"
    using a c by blast
  show "\<forall>k\<in>registered_ids (messageHandlers s).
      k \<in> fst ` set (calls ?d) \<or> (\<exists>(i, r)\<in>set (calls ?d). k \<in> set (offMessages r))"
    unfolding handleMessage_def by (rule forEach_called_or_unregistered)
qed

theorem faulty_handler_removed_witness:
  "map fst (calls (handleMessage (wire_message ''agent_communication'') three_handlers)) =
     [''logger'', ''faulty'', ''realtime_service''] \<and>
   map fst (messageHandlers
              (service (handleMessage (wire_message ''agent_communication'') three_handlers))) =
     [''logger'', ''realtime_service''] \<and>
   ''faulty'' \<notin> fst ` set (calls (handleMessage (wire_message ''tool_call_start'')
      (service (handleMessage (wire_message ''agent_communication'') three_handlers))))"
proof -
  let ?m = "wire_message ''agent_communication''"
  let ?bad = "\<lparr> fields_after = idle_fields, offMessages = [], threw = True \<rparr>"
  let ?ok = "\<lparr> fields_after = idle_fields, offMessages = [], threw = False \<rparr>"
  have c: "calls (handleMessage ?m three_handlers) =
      [(''logger'', ?ok), (''faulty'', ?bad), (''realtime_service'', ?ok)]"
    by (simp add: handleMessage_def three_handlers_def returning_handler_def
        throwing_handler_def map_delete_all_def Let_def)
  have h: "map fst (messageHandlers (service (handleMessage ?m three_handlers))) =
      [''logger'', ''realtime_service'']"
    by (simp add: handleMessage_def three_handlers_def returning_handler_def
        throwing_handler_def map_delete_all_def Let_def)
  have "(''faulty'', ?bad) \<in> set (calls (handleMessage ?m three_handlers))"
    by (simp add: c)
  with faulty_handler_removed [of "?m" three_handlers "wire_message ''tool_call_start''"]
  have "''faulty'' \<notin> fst ` set (calls (handleMessage (wire_message ''tool_call_start'')
      (service (handleMessage ?m three_handlers))))"
    by fastforce
  with c h show ?thesis by simp
qed

subsection \<open>The start of an investigation\<close>


lemma map_of_map_set: "map_of (map_set k v m) k = Some v"
  by (induction m) auto











section \<open>Properties of the session orchestrator\<close>

text \<open>
  C9. \<open>startSession\<close> on a service whose session is active rejects with the error
  \<open>Investigation session is already active\<close> and leaves the whole service as it was: the
  active flag, the current session id, the registered callback and the transport, on
  which no request is sent.
\<close>

theorem startSession_while_active:
  "sessionActive s \<Longrightarrow>
     startSession newId company bill callback connected started s =
       (s, Some ''Investigation session is already active'')"
  by (simp add: startSession_def)

theorem startSession_while_active_witness:
  "sessionActive listening_service \<and>
   startSession ''session_2'' ''Acme'' ''S. 383-116'' () True (Resolved ''session_2'')
     listening_service =
     (listening_service, Some ''Investigation session is already active'') \<and>
   sent (core (websocketService (fst
     (startSession ''session_2'' ''Acme'' ''S. 383-116'' () True (Resolved ''session_2'')
        listening_service)))) = []"
proof -
  have a: "sessionActive listening_service"
    by (simp add: listening_service_def)
  have "sent (core (websocketService listening_service)) = []"
    by (simp add: listening_service_def open_service_def idle_fields_def)
  with a startSession_while_active [OF a, of "''session_2''" "''Acme''" "''S. 383-116''" "()"
      True "Resolved ''session_2''"]
  show ?thesis by simp
qed

subsection \<open>Enrichment\<close>










end
